theory Spec2Isabelle
  imports Main
begin

section \<open>The Cython build hook of bt (hatch\_build.py)\<close>

text \<open>
  The repository's build hook is one method, \<open>CustomBuildHook.initialize\<close>. It prints a
  line, runs \<open>cython bt/core.py -o bt/core.c\<close> as a subprocess in the project root, and,
  when that call raises \<open>CalledProcessError\<close> or \<open>FileNotFoundError\<close>, tests whether
  \<open>bt/core.c\<close> exists under the root; if it does not, it raises \<open>RuntimeError\<close>.

  The embedding passes the state of the world explicitly. What the hook does not decide
  itself is a parameter of the model: what the operating system answers when the
  subprocess is started and how Python renders an exception as text (the \<open>runtime\<close>),
  and whether a write to standard output succeeds (the \<open>stdout\<close>).
\<close>

subsection \<open>Exceptions\<close>

text \<open>
  The exceptions that can be raised while the hook runs. \<open>CalledProcessError\<close> carries
  the return code and the command; \<open>RuntimeError\<close> carries its message and is what the
  hook raises itself. \<open>FileNotFoundError\<close>, \<open>PermissionError\<close> and
  \<open>NotADirectoryError\<close> are the subclasses of \<open>OSError\<close> that Python has for the errnos
  of a child process that could not be started; \<open>OSError n\<close> is the base class, raised
  for an errno \<open>n\<close> that has no subclass of its own. \<open>OtherException c\<close> is an exception
  of any other class, named by \<open>c\<close>: \<open>ValueError\<close>, \<open>BrokenPipeError\<close>,
  \<open>KeyboardInterrupt\<close> and so on. None of these other classes is a subclass of
  \<open>CalledProcessError\<close> or \<open>FileNotFoundError\<close>.
\<close>

datatype py_exception =
    CalledProcessError int "string list"
  | FileNotFoundError
  | PermissionError
  | NotADirectoryError
  | OSError nat
  | RuntimeError string
  | OtherException string

subsection \<open>The world: files, and the operations the hook performs\<close>

text \<open>
  The file system maps a path, as the hook's process names it, to the content of the file
  there. The operations of the hook are recorded in program order: a line printed to
  standard output, the subprocess call with its command, working directory and \<open>check\<close>
  flag, and a test for the existence of a path.
\<close>

type_synonym filesystem = "string \<rightharpoonup> string"

datatype effect =
    Print string
  | SubprocessRun "string list" string bool
  | PathExists string

record world =
  files :: filesystem
  trace :: "effect list"

subsection \<open>The runtime: the operating system and the interpreter\<close>

text \<open>
  A call of \<open>subprocess.run\<close> ends in one of three ways. The program ran: it exited with
  a status and left the file system in some state. Or the child could not be started, and
  the call raises the \<open>OSError\<close> of the errno: \<open>ENOENT\<close> when the executable or the
  working directory is not found, \<open>EACCES\<close> when one of them may not be used,
  \<open>ENOTDIR\<close> when the working directory is no directory, and \<open>OtherErrno n\<close> for
  any errno \<open>n\<close> without an exception class of its own (\<open>ENOEXEC\<close>, \<open>ELOOP\<close>,
  \<open>ENAMETOOLONG\<close>, ...); a process that was never started changes no file. Or the call
  raises an exception of another class \<open>c\<close> (\<open>ValueError\<close> for a null byte in the
  working directory, \<open>KeyboardInterrupt\<close> while it waits for the child, ...), with the
  file system in the state reached by then.
\<close>

datatype spawn_errno = ENOENT | EACCES | ENOTDIR | OtherErrno nat

datatype proc_outcome =
    Exited int filesystem
  | SpawnFailed spawn_errno
  | RunRaised string filesystem

record runtime =
  spawn :: "string list \<Rightarrow> string \<Rightarrow> filesystem \<Rightarrow> proc_outcome"
  str_exc :: "py_exception \<Rightarrow> string"

text \<open>Python maps the errno of a failed system call to a subclass of \<open>OSError\<close>.\<close>

fun oserror_of :: "spawn_errno \<Rightarrow> py_exception" where
  "oserror_of ENOENT = FileNotFoundError"
| "oserror_of EACCES = PermissionError"
| "oserror_of ENOTDIR = NotADirectoryError"
| "oserror_of (OtherErrno n) = OSError n"

text \<open>
  Standard output: for a line that \<open>print\<close> is asked to write, \<open>None\<close> if the write
  succeeds, and the class of the exception it raises otherwise: \<open>ValueError\<close> on a
  closed stream, \<open>BrokenPipeError\<close> or another \<open>OSError\<close> of the failed write. It is
  never one of the two classes the hook catches.
\<close>

type_synonym stdout = "string \<Rightarrow> string option"

definition working_stdout :: stdout where
  "working_stdout = (\<lambda>s. None)"

subsection \<open>The library calls the hook makes\<close>

text \<open>\<open>print(s)\<close>: the line is written, or the write raises and nothing is recorded.\<close>

definition print_line :: "stdout \<Rightarrow> string \<Rightarrow> world \<Rightarrow> py_exception + world" where
  "print_line out s w =
     (case out s of
        None \<Rightarrow> Inr (w\<lparr>trace := trace w @ [Print s]\<rparr>)
      | Some c \<Rightarrow> Inl (OtherException c))"

text \<open>
  \<open>subprocess.run(args, check=..., cwd=...)\<close>: the child is started in \<open>cwd\<close>; a failure
  to start it is raised as the \<open>OSError\<close> of its errno; with \<open>check=True\<close> a return code
  other than 0 is raised as \<open>CalledProcessError\<close>. Otherwise the return code is returned.
  An exception of another class raised by the call is passed on.
\<close>

definition subprocess_run ::
  "runtime \<Rightarrow> string list \<Rightarrow> bool \<Rightarrow> string \<Rightarrow> world \<Rightarrow> (py_exception + int) \<times> world" where
  "subprocess_run rt args check cwd w =
     (let w' = w\<lparr>trace := trace w @ [SubprocessRun args cwd check]\<rparr>
      in case spawn rt args cwd (files w) of
           SpawnFailed en \<Rightarrow> (Inl (oserror_of en), w')
         | RunRaised c fs' \<Rightarrow> (Inl (OtherException c), w'\<lparr>files := fs'\<rparr>)
         | Exited rc fs' \<Rightarrow>
             (if check \<and> rc \<noteq> 0 then Inl (CalledProcessError rc args) else Inr rc,
              w'\<lparr>files := fs'\<rparr>))"

text \<open>
  \<open>os.path.join\<close> of \<open>posixpath\<close>: a component that starts with a slash replaces what
  was joined so far; otherwise it is appended, after a slash unless the path so far is
  empty or already ends with one.
\<close>

definition join_step :: "string \<Rightarrow> string \<Rightarrow> string" where
  "join_step path b =
     (if b \<noteq> [] \<and> hd b = CHR ''/'' then b
      else if path = [] \<or> last path = CHR ''/'' then path @ b
      else path @ ''/'' @ b)"

definition os_path_join :: "string \<Rightarrow> string list \<Rightarrow> string" where
  "os_path_join a ps = foldl join_step a ps"

definition os_path_exists :: "string \<Rightarrow> world \<Rightarrow> bool \<times> world" where
  "os_path_exists p w = (files w p \<noteq> None, w\<lparr>trace := trace w @ [PathExists p]\<rparr>)"

subsection \<open>The hook\<close>

text \<open>
  The hook object: \<open>self.root\<close> is the project root the build system gives it.
  \<open>build_data\<close> is the dictionary the build system passes in; it is a mutable object, so
  the model returns it with the result.
\<close>

record hook =
  root :: string

datatype py_value = PyStr string | PyBool bool | PyList "py_value list"

type_synonym build_data = "(string \<times> py_value) list"

definition cython_argv :: "string list" where
  "cython_argv = [''cython'', ''bt/core.py'', ''-o'', ''bt/core.c'']"

definition core_c_path :: "hook \<Rightarrow> string" where
  "core_c_path self = os_path_join (root self) [''bt'', ''core.c'']"

definition remediation_message :: string where
  "remediation_message =
     ''Cython compilation failed and no pre-compiled bt/core.c found. '' @
     ''Please install Cython: pip install cython''"

text \<open>The clause \<open>except (subprocess.CalledProcessError, FileNotFoundError)\<close>.\<close>

fun caught :: "py_exception \<Rightarrow> bool" where
  "caught (CalledProcessError rc cmd) = True"
| "caught FileNotFoundError = True"
| "caught e = False"

text \<open>
  The body of the \<open>try\<close> statement (lines 15 to 22): the first line is printed, the
  compiler is run, the line of success is printed. An exception raised by any of the three
  ends the body; the world is as the body left it.
\<close>

definition try_body ::
  "stdout \<Rightarrow> runtime \<Rightarrow> hook \<Rightarrow> world \<Rightarrow> (py_exception + unit) \<times> world" where
  "try_body out rt self w0 =
     (case print_line out ''Compiling bt/core.py with Cython...'' w0 of
        Inl x \<Rightarrow> (Inl x, w0)
      | Inr w1 \<Rightarrow>
          (let (r, w2) = subprocess_run rt cython_argv True (root self) w1
           in case r of
                Inl e \<Rightarrow> (Inl e, w2)
              | Inr completed \<Rightarrow>
                  (case print_line out ''Cython compilation successful!'' w2 of
                     Inl x \<Rightarrow> (Inl x, w2)
                   | Inr w3 \<Rightarrow> (Inr (), w3))))"

text \<open>
  The handler of the \<open>except\<close> clause (lines 24 to 32), entered with the caught
  exception \<open>e\<close>. An exception raised by one of its prints leaves the hook, as the
  \<open>RuntimeError\<close> does that the handler raises itself.
\<close>

definition except_handler ::
  "stdout \<Rightarrow> runtime \<Rightarrow> hook \<Rightarrow> py_exception \<Rightarrow> world
     \<Rightarrow> (py_exception + unit) \<times> world" where
  "except_handler out rt self e w2 =
     (case print_line out
             (''Cython compilation failed or Cython not found: '' @ str_exc rt e) w2 of
        Inl x \<Rightarrow> (Inl x, w2)
      | Inr w3 \<Rightarrow>
          (case print_line out ''Checking if pre-compiled bt/core.c exists...'' w3 of
             Inl x \<Rightarrow> (Inl x, w3)
           | Inr w4 \<Rightarrow>
               (let (found, w5) = os_path_exists (core_c_path self) w4
                in if \<not> found then (Inl (RuntimeError remediation_message), w5)
                   else (case print_line out ''Using pre-compiled bt/core.c'' w5 of
                           Inl x \<Rightarrow> (Inl x, w5)
                         | Inr w6 \<Rightarrow> (Inr (), w6)))))"

text \<open>
  \<open>initialize(self, version, build_data)\<close>, run with the standard output \<open>out\<close>. The
  result is \<open>Inl e\<close> when the exception \<open>e\<close> leaves the method and \<open>Inr ()\<close> when
  it returns; the world and \<open>build_data\<close> are returned as the call leaves them.
\<close>

definition initialize_with ::
  "stdout \<Rightarrow> runtime \<Rightarrow> hook \<Rightarrow> string \<Rightarrow> build_data \<Rightarrow> world
     \<Rightarrow> (py_exception + unit) \<times> world \<times> build_data" where
  "initialize_with out rt self version build_data w0 =
     (let (r, w2) = try_body out rt self w0
      in case r of
           Inr finished \<Rightarrow> (Inr (), w2, build_data)
         | Inl e \<Rightarrow>
             if caught e then
               (let (r', w') = except_handler out rt self e w2 in (r', w', build_data))
             else (Inl e, w2, build_data))"

text \<open>
  The hook in a run in which every write to standard output succeeds. Where a claim is
  about what the hook does with the compiler and the file, and not about its output
  stream, it is stated of such a run.
\<close>

definition initialize ::
  "runtime \<Rightarrow> hook \<Rightarrow> string \<Rightarrow> build_data \<Rightarrow> world
     \<Rightarrow> (py_exception + unit) \<times> world \<times> build_data" where
  "initialize rt self version build_data w0 =
     initialize_with working_stdout rt self version build_data w0"

text \<open>The three parts of what a call of the hook leaves behind.\<close>

definition result_of ::
  "(py_exception + unit) \<times> world \<times> build_data \<Rightarrow> py_exception + unit" where
  "result_of x = fst x"

definition world_after :: "(py_exception + unit) \<times> world \<times> build_data \<Rightarrow> world" where
  "world_after x = fst (snd x)"

definition build_data_after ::
  "(py_exception + unit) \<times> world \<times> build_data \<Rightarrow> build_data" where
  "build_data_after x = snd (snd x)"

subsection \<open>What the operating system answered\<close>

text \<open>
  The answer of the operating system to the one subprocess call of the hook, started on the
  files of the world the hook is called in.
\<close>

definition invocation :: "runtime \<Rightarrow> hook \<Rightarrow> world \<Rightarrow> proc_outcome" where
  "invocation rt self w = spawn rt cython_argv (root self) (files w)"

text \<open>
  The invocation fails in one of the two ways the hook recovers from: the tool ran and
  exited with a status other than 0 (\<open>CalledProcessError\<close>), or its executable was not
  found (\<open>FileNotFoundError\<close>, which a working directory that is not found raises too).
\<close>

fun tool_failure :: "proc_outcome \<Rightarrow> bool" where
  "tool_failure (Exited rc fs') = (rc \<noteq> 0)"
| "tool_failure (SpawnFailed en) = (en = ENOENT)"
| "tool_failure (RunRaised c fs') = False"

text \<open>The files as the invocation leaves them: those of the tool if it ran.\<close>

fun files_left :: "proc_outcome \<Rightarrow> filesystem \<Rightarrow> filesystem" where
  "files_left (Exited rc fs') fs = fs'"
| "files_left (SpawnFailed en) fs = fs"
| "files_left (RunRaised c fs') fs = fs'"

definition output_exists :: "hook \<Rightarrow> filesystem \<Rightarrow> bool" where
  "output_exists self fs = (fs (core_c_path self) \<noteq> None)"

text \<open>
  The operations one call of the hook performs itself: what the call appends to the trace
  of the world it starts in.
\<close>

definition operations ::
  "runtime \<Rightarrow> hook \<Rightarrow> string \<Rightarrow> build_data \<Rightarrow> world \<Rightarrow> effect list" where
  "operations rt self version build_data w =
     drop (length (trace w)) (trace (world_after (initialize rt self version build_data w)))"

text \<open>The same for a run with any standard output.\<close>

definition operations_with ::
  "stdout \<Rightarrow> runtime \<Rightarrow> hook \<Rightarrow> string \<Rightarrow> build_data \<Rightarrow> world \<Rightarrow> effect list" where
  "operations_with out rt self version build_data w =
     drop (length (trace w))
       (trace (world_after (initialize_with out rt self version build_data w)))"


fun is_path_exists :: "effect \<Rightarrow> bool" where
  "is_path_exists (PathExists p) = True"
| "is_path_exists e = False"


subsection \<open>Which file a path names\<close>

text \<open>
  The operating system resolves a path by walking its components, the names between
  slashes, from the root directory if the path starts with a slash and from the working
  directory of the process otherwise. Two paths that give the same walk name the same file.
  A working directory is given as its own walk from the root directory. The child process
  of \<open>subprocess.run(..., cwd=d)\<close> has as working directory what \<open>d\<close> names in the
  parent.
\<close>

fun split_slash :: "string \<Rightarrow> string \<Rightarrow> string list" where
  "split_slash cur [] = (if cur = [] then [] else [cur])"
| "split_slash cur (c # cs) =
     (if c = CHR ''/'' then (if cur = [] then [] else [cur]) @ split_slash [] cs
      else split_slash (cur @ [c]) cs)"

definition path_components :: "string \<Rightarrow> string list" where
  "path_components p = split_slash [] p"

definition is_absolute :: "string \<Rightarrow> bool" where
  "is_absolute p = (case p of [] \<Rightarrow> False | c # cs \<Rightarrow> c = CHR ''/'')"

definition resolve :: "string list \<Rightarrow> string \<Rightarrow> string list" where
  "resolve wd p = (if is_absolute p then [] else wd) @ path_components p"

subsection \<open>Concrete runs\<close>

text \<open>
  A project at \<open>/project\<close>, with and without a generated \<open>bt/core.c\<close>, and these
  environments: no \<open>cython\<close> on the search path; a \<open>cython\<close> that fails with status 1
  and touches nothing; a \<open>cython\<close> that writes the file named after \<open>-o\<close> under its
  working directory and exits with 0; a program called \<open>cython\<close> that exits with 0 and
  writes nothing; a \<open>cython\<close> that may not be executed; a \<open>cython\<close> that fails with
  status 1 after it has written the output file; one that fails with status 1 after it has
  removed the output file; and one that exits with 0 after it has written the output file
  and a header beside it. Two standard outputs that fail: a closed stream, and a pipe that
  takes the first line of the hook and breaks then.
\<close>

fun plain_str :: "py_exception \<Rightarrow> string" where
  "plain_str (CalledProcessError rc cmd) = ''Command returned non-zero exit status''"
| "plain_str FileNotFoundError = ''[Errno 2] No such file or directory''"
| "plain_str PermissionError = ''[Errno 13] Permission denied''"
| "plain_str NotADirectoryError = ''[Errno 20] Not a directory''"
| "plain_str (OSError n) = ''[Errno]''"
| "plain_str (RuntimeError msg) = msg"
| "plain_str (OtherException c) = c"

definition project :: hook where
  "project = \<lparr>root = ''/project''\<rparr>"

definition empty_tree :: world where
  "empty_tree = \<lparr>files = Map.empty, trace = []\<rparr>"

definition prebuilt_tree :: world where
  "prebuilt_tree = \<lparr>files = [''/project/bt/core.c'' \<mapsto> ''generated earlier''], trace = []\<rparr>"

definition no_cython :: runtime where
  "no_cython = \<lparr>spawn = (\<lambda>args cwd fs. SpawnFailed ENOENT), str_exc = plain_str\<rparr>"

definition failing_cython :: runtime where
  "failing_cython = \<lparr>spawn = (\<lambda>args cwd fs. Exited 1 fs), str_exc = plain_str\<rparr>"

definition working_cython :: runtime where
  "working_cython =
     \<lparr>spawn = (\<lambda>args cwd fs. Exited 0 (fs(os_path_join cwd [args ! 3] \<mapsto> ''generated''))),
      str_exc = plain_str\<rparr>"

definition silent_tool :: runtime where
  "silent_tool = \<lparr>spawn = (\<lambda>args cwd fs. Exited 0 fs), str_exc = plain_str\<rparr>"

definition unexecutable_cython :: runtime where
  "unexecutable_cython = \<lparr>spawn = (\<lambda>args cwd fs. SpawnFailed EACCES), str_exc = plain_str\<rparr>"

definition clobbering_cython :: runtime where
  "clobbering_cython =
     \<lparr>spawn = (\<lambda>args cwd fs.
                 Exited 1 (fs(os_path_join cwd [args ! 3] \<mapsto> ''#error Do not use this file''))),
      str_exc = plain_str\<rparr>"

definition deleting_cython :: runtime where
  "deleting_cython =
     \<lparr>spawn = (\<lambda>args cwd fs. Exited 1 (fs(os_path_join cwd [args ! 3] := None))),
      str_exc = plain_str\<rparr>"

definition header_writing_cython :: runtime where
  "header_writing_cython =
     \<lparr>spawn = (\<lambda>args cwd fs.
                 Exited 0 (fs(os_path_join cwd [args ! 3] \<mapsto> ''generated'',
                              os_path_join cwd [''bt/core.h''] \<mapsto> ''generated header''))),
      str_exc = plain_str\<rparr>"

definition closed_stdout :: stdout where
  "closed_stdout = (\<lambda>s. Some ''ValueError'')"

definition broken_pipe :: stdout where
  "broken_pipe =
     (\<lambda>s. if s = ''Compiling bt/core.py with Cython...'' then None
          else Some ''BrokenPipeError'')"

section \<open>How a call of the hook unfolds\<close>

lemmas hook_defs =
  initialize_with_def try_body_def except_handler_def subprocess_run_def print_line_def
  os_path_exists_def invocation_def Let_def

lemma initialize_cases:
  "initialize rt self version build_data w =
     (case invocation rt self w of
        Exited rc fs' \<Rightarrow>
          if rc = 0 then
            (Inr (),
             \<lparr>files = fs',
              trace = trace w @ [Print ''Compiling bt/core.py with Cython...'',
                                 SubprocessRun cython_argv (root self) True,
                                 Print ''Cython compilation successful!'']\<rparr>,
             build_data)
          else if fs' (core_c_path self) = None then
            (Inl (RuntimeError remediation_message),
             \<lparr>files = fs',
              trace = trace w @ [Print ''Compiling bt/core.py with Cython...'',
                                 SubprocessRun cython_argv (root self) True,
                                 Print (''Cython compilation failed or Cython not found: '' @
                                        str_exc rt (CalledProcessError rc cython_argv)),
                                 Print ''Checking if pre-compiled bt/core.c exists...'',
                                 PathExists (core_c_path self)]\<rparr>,
             build_data)
          else
            (Inr (),
             \<lparr>files = fs',
              trace = trace w @ [Print ''Compiling bt/core.py with Cython...'',
                                 SubprocessRun cython_argv (root self) True,
                                 Print (''Cython compilation failed or Cython not found: '' @
                                        str_exc rt (CalledProcessError rc cython_argv)),
                                 Print ''Checking if pre-compiled bt/core.c exists...'',
                                 PathExists (core_c_path self),
                                 Print ''Using pre-compiled bt/core.c'']\<rparr>,
             build_data)
      | SpawnFailed en \<Rightarrow>
          if en = ENOENT then
            if files w (core_c_path self) = None then
              (Inl (RuntimeError remediation_message),
               \<lparr>files = files w,
                trace = trace w @ [Print ''Compiling bt/core.py with Cython...'',
                                   SubprocessRun cython_argv (root self) True,
                                   Print (''Cython compilation failed or Cython not found: '' @
                                          str_exc rt FileNotFoundError),
                                   Print ''Checking if pre-compiled bt/core.c exists...'',
                                   PathExists (core_c_path self)]\<rparr>,
               build_data)
            else
              (Inr (),
               \<lparr>files = files w,
                trace = trace w @ [Print ''Compiling bt/core.py with Cython...'',
                                   SubprocessRun cython_argv (root self) True,
                                   Print (''Cython compilation failed or Cython not found: '' @
                                          str_exc rt FileNotFoundError),
                                   Print ''Checking if pre-compiled bt/core.c exists...'',
                                   PathExists (core_c_path self),
                                   Print ''Using pre-compiled bt/core.c'']\<rparr>,
               build_data)
          else
            (Inl (oserror_of en),
             \<lparr>files = files w,
              trace = trace w @ [Print ''Compiling bt/core.py with Cython...'',
                                 SubprocessRun cython_argv (root self) True]\<rparr>,
             build_data)
      | RunRaised c fs' \<Rightarrow>
          (Inl (OtherException c),
           \<lparr>files = fs',
            trace = trace w @ [Print ''Compiling bt/core.py with Cython...'',
                               SubprocessRun cython_argv (root self) True]\<rparr>,
           build_data))"
proof (cases "spawn rt cython_argv (root self) (files w)")
  case (Exited rc fs')
  then show ?thesis
    by (cases w)
       (simp add: initialize_def working_stdout_def hook_defs)
next
  case (SpawnFailed en)
  then show ?thesis
    by (cases w; cases en)
       (simp_all add: initialize_def working_stdout_def hook_defs)
next
  case (RunRaised c fs')
  then show ?thesis
    by (cases w)
       (simp add: initialize_def working_stdout_def hook_defs)
qed

lemma oserror_of_not_runtime [simp]: "oserror_of en \<noteq> RuntimeError m"
  by (cases en) simp_all

lemma caught_oserror_of [simp]: "caught (oserror_of en) = (en = ENOENT)"
  by (cases en) simp_all



section \<open>The walk of the joined path\<close>

lemma split_slash_append:
  "split_slash cur (xs @ CHR ''/'' # ys) = split_slash cur xs @ split_slash [] ys"
  by (induction xs arbitrary: cur) simp_all

lemma path_components_slash:
  "path_components (a @ ''/'' @ b) = path_components a @ path_components b"
  by (simp add: path_components_def split_slash_append)

lemma path_components_trailing:
  assumes "a \<noteq> []" and "last a = CHR ''/''"
  shows "path_components (a @ b) = path_components a @ path_components b"
proof -
  from assms obtain a' where a: "a = a' @ ''/''"
    by (metis append_butlast_last_id)
  have "path_components a = path_components a'"
    using path_components_slash [of a' "[]"] by (simp add: a path_components_def)
  then show ?thesis
    using path_components_slash [of a' b] by (simp add: a)
qed

lemma core_c_path_cases:
  "core_c_path self =
     (if root self = [] then ''bt/core.c''
      else if last (root self) = CHR ''/'' then root self @ ''bt/core.c''
      else root self @ ''/'' @ ''bt/core.c'')"
  by (simp add: core_c_path_def os_path_join_def join_step_def)

lemma components_bt_core_c: "path_components ''bt/core.c'' = [''bt'', ''core.c'']"
  by (simp add: path_components_def)

lemma bt_core_c_relative: "\<not> is_absolute ''bt/core.c''"
  by (simp add: is_absolute_def)

lemma path_components_core_c_path:
  "path_components (core_c_path self) = path_components (root self) @ [''bt'', ''core.c'']"
proof (cases "root self = []")
  case True
  then show ?thesis by (simp add: core_c_path_cases path_components_def)
next
  case False
  show ?thesis
  proof (cases "last (root self) = CHR ''/''")
    case True
    with \<open>root self \<noteq> []\<close> show ?thesis
      using path_components_trailing [of "root self" "''bt/core.c''"]
      by (simp add: core_c_path_cases components_bt_core_c)
  next
    case False
    with \<open>root self \<noteq> []\<close> show ?thesis
      using path_components_slash [of "root self" "''bt/core.c''"]
      by (simp add: core_c_path_cases components_bt_core_c)
  qed
qed

lemma is_absolute_core_c_path: "is_absolute (core_c_path self) = is_absolute (root self)"
  by (cases "root self") (simp_all add: core_c_path_cases is_absolute_def)

lemma core_c_path_resolves:
  "resolve wd (core_c_path self) = resolve (resolve wd (root self)) ''bt/core.c''"
  by (simp add: resolve_def path_components_core_c_path is_absolute_core_c_path
        components_bt_core_c bt_core_c_relative)

section \<open>Claims\<close>

text \<open>
  In the claims below, the compiler invocation fails when \<open>tool_failure\<close> holds of what
  the operating system answered: the tool exited with a status other than 0, or its
  executable was not found. The hook looks for the output file after the attempt: in the
  files as the tool left them if it ran (\<open>files_left\<close>), and in the files as they were
  if no process was started.
\<close>

text \<open>
  C1, as stated, fails, in both directions. A tool that writes the output file and then
  exits with status 1, in a tree without the file: the invocation fails and the file did
  not exist already, yet the hook returns without an error. A tool that removes the output
  file and then exits with status 1, in a tree with the file: the file existed already,
  yet the fatal error is raised. The hook tests for the file on line 27, after the attempt.
  And when the tool is missing, the file is missing and standard output breaks after the
  first line, the error that leaves the hook is the one of the failed print, not the
  fatal one.
\<close>

theorem fatal_error_follows_the_tool:
  "tool_failure (invocation clobbering_cython project empty_tree)
   \<and> \<not> output_exists project (files empty_tree)
   \<and> result_of (initialize clobbering_cython project ''1.0'' [] empty_tree) = Inr ()
   \<and> tool_failure (invocation deleting_cython project prebuilt_tree)
   \<and> output_exists project (files prebuilt_tree)
   \<and> result_of (initialize deleting_cython project ''1.0'' [] prebuilt_tree)
       = Inl (RuntimeError remediation_message)
   \<and> tool_failure (invocation no_cython project empty_tree)
   \<and> result_of (initialize_with broken_pipe no_cython project ''1.0'' [] empty_tree)
       = Inl (OtherException ''BrokenPipeError'')"
  by (simp add: initialize_cases result_of_def clobbering_cython_def deleting_cython_def
        no_cython_def broken_pipe_def hook_defs project_def empty_tree_def prebuilt_tree_def
        cython_argv_def core_c_path_def os_path_join_def join_step_def output_exists_def)

text \<open>
  C1, amended. For every build root, in a run in which the writes to standard output
  succeed, the hook raises the fatal error (\<open>RuntimeError\<close> with the remediation
  message) if and only if the compiler invocation fails, by a nonzero exit status or a
  missing executable, and the output file \<open>bt/core.c\<close> under the root does not exist
  when the hook looks, which is after the attempt. When the failed invocation has neither
  created nor removed the output file, as when the executable was not found, that is: if
  and only if the invocation fails and the file does not exist already. Both failure
  modes are recovered from: each leads to the existence check, and the call then returns
  or raises the fatal error, never the failure of the invocation itself.
\<close>

theorem fatal_iff_failure_and_absent:
  "(result_of (initialize rt self version build_data w) = Inl (RuntimeError remediation_message))
     = (tool_failure (invocation rt self w)
        \<and> \<not> output_exists self (files_left (invocation rt self w) (files w)))
   \<and> (output_exists self (files_left (invocation rt self w) (files w))
         = output_exists self (files w)
      \<longrightarrow> (result_of (initialize rt self version build_data w)
             = Inl (RuntimeError remediation_message))
          = (tool_failure (invocation rt self w) \<and> \<not> output_exists self (files w)))
   \<and> (tool_failure (invocation rt self w) \<longrightarrow>
        PathExists (core_c_path self) \<in> set (operations rt self version build_data w)
        \<and> (result_of (initialize rt self version build_data w) = Inr ()
           \<or> result_of (initialize rt self version build_data w)
               = Inl (RuntimeError remediation_message)))"
  by (cases "invocation rt self w")
     (auto simp: result_of_def world_after_def operations_def output_exists_def initialize_cases
           split: spawn_errno.splits)

text \<open>
  No generated file, and \<open>cython\<close> either missing from the search path or failing with
  status 1: the existence test is made and the fatal error raised.
\<close>

theorem fatal_iff_failure_and_absent_witness:
  "result_of (initialize no_cython project ''1.0'' [] empty_tree)
     = Inl (RuntimeError remediation_message)
   \<and> tool_failure (invocation no_cython project empty_tree)
   \<and> \<not> output_exists project (files empty_tree)
   \<and> PathExists ''/project/bt/core.c'' \<in> set (operations no_cython project ''1.0'' [] empty_tree)
   \<and> result_of (initialize failing_cython project ''1.0'' [] empty_tree)
       = Inl (RuntimeError remediation_message)
   \<and> tool_failure (invocation failing_cython project empty_tree)
   \<and> PathExists ''/project/bt/core.c''
        \<in> set (operations failing_cython project ''1.0'' [] empty_tree)"
  using fatal_iff_failure_and_absent [of no_cython project "''1.0''" "[]" empty_tree]
        fatal_iff_failure_and_absent [of failing_cython project "''1.0''" "[]" empty_tree]
  by (simp add: project_def empty_tree_def no_cython_def failing_cython_def invocation_def
        output_exists_def core_c_path_def os_path_join_def join_step_def)

text \<open>
  C2, as stated, fails in both halves. A program called \<open>cython\<close> that exits with status
  0 and writes nothing makes the hook return without an error, and \<open>bt/core.c\<close> does not
  exist afterwards: after a zero exit status the hook does not look for the file. And a
  \<open>cython\<close> that exits with status 0 after writing \<open>bt/core.c\<close> and a header
  \<open>bt/core.h\<close> makes the step create a file other than the output file.
\<close>

theorem success_without_output:
  "result_of (initialize silent_tool project ''1.0'' [] empty_tree) = Inr ()
   \<and> \<not> output_exists project
        (files (world_after (initialize silent_tool project ''1.0'' [] empty_tree)))
   \<and> result_of (initialize header_writing_cython project ''1.0'' [] empty_tree) = Inr ()
   \<and> files empty_tree ''/project/bt/core.h'' = None
   \<and> files (world_after (initialize header_writing_cython project ''1.0'' [] empty_tree))
        ''/project/bt/core.h'' = Some ''generated header''"
  by (simp add: initialize_cases result_of_def world_after_def silent_tool_def
        header_writing_cython_def project_def empty_tree_def invocation_def cython_argv_def
        core_c_path_def os_path_join_def join_step_def output_exists_def)

text \<open>
  C2, amended. For every build root and every standard output, if the hook returns without
  raising, then either the compiler subprocess exited with status 0, and the hook has not
  looked for the output file, or the invocation failed in a way the hook recovers from and
  the output file exists afterwards. Persistent state is created and changed by the
  subprocess only: the files after the call are exactly those the subprocess left, so the
  output file exists after a zero exit status exactly if the tool left it there.
\<close>

theorem state_after_success:
  assumes "result_of (initialize_with out rt self version build_data w) = Inr ()"
  shows "((\<exists>fs'. invocation rt self w = Exited 0 fs')
          \<or> (tool_failure (invocation rt self w)
             \<and> output_exists self
                  (files (world_after (initialize_with out rt self version build_data w)))))
         \<and> files (world_after (initialize_with out rt self version build_data w))
             = files_left (invocation rt self w) (files w)"
  using assms
  by (cases w; cases "spawn rt cython_argv (root self) (files w)")
     (auto simp: result_of_def world_after_def output_exists_def hook_defs
           split: option.splits if_splits)

text \<open>No \<open>cython\<close>, but a file generated earlier: the call returns and the file is there.\<close>

theorem state_after_success_witness:
  "result_of (initialize_with working_stdout no_cython project ''1.0'' [] prebuilt_tree) = Inr ()
   \<and> tool_failure (invocation no_cython project prebuilt_tree)
   \<and> output_exists project
        (files (world_after
           (initialize_with working_stdout no_cython project ''1.0'' [] prebuilt_tree)))
   \<and> files (world_after
        (initialize_with working_stdout no_cython project ''1.0'' [] prebuilt_tree))
       = files prebuilt_tree"
proof -
  have returns:
    "result_of (initialize_with working_stdout no_cython project ''1.0'' [] prebuilt_tree)
       = Inr ()"
    by (simp add: result_of_def working_stdout_def no_cython_def hook_defs project_def
          prebuilt_tree_def core_c_path_def os_path_join_def join_step_def)
  have failed: "invocation no_cython project prebuilt_tree = SpawnFailed ENOENT"
    by (simp add: invocation_def no_cython_def)
  from state_after_success [OF returns] returns failed show ?thesis by auto
qed

text \<open>
  C3, as stated, fails. When \<open>cython\<close> is found but may not be executed, starting it
  raises \<open>PermissionError\<close>; the \<open>except\<close> clause of the hook names
  \<open>CalledProcessError\<close> and \<open>FileNotFoundError\<close> only, so the exception leaves the
  hook, and it is not the fatal error. And when standard output is closed, the first
  \<open>print\<close> raises \<open>ValueError\<close> inside the \<open>try\<close> statement, which leaves the hook
  likewise.
\<close>

theorem permission_error_escapes:
  "result_of (initialize unexecutable_cython project ''1.0'' [] empty_tree) = Inl PermissionError
   \<and> PermissionError \<noteq> RuntimeError remediation_message
   \<and> result_of (initialize_with closed_stdout working_cython project ''1.0'' [] empty_tree)
       = Inl (OtherException ''ValueError'')
   \<and> OtherException ''ValueError'' \<noteq> RuntimeError remediation_message"
  by (simp add: initialize_cases invocation_def unexecutable_cython_def result_of_def
        closed_stdout_def hook_defs)

text \<open>
  C3, amended. Every error that leaves the hook is either the one fatal error
  (\<open>RuntimeError\<close> with the remediation message), which the hook raises itself, or an
  exception raised by a call the hook makes, \<open>subprocess.run\<close> or \<open>print\<close>, of a class
  that the \<open>except\<close> clause does not name (\<open>PermissionError\<close>, \<open>OSError\<close>,
  \<open>ValueError\<close>, \<open>BrokenPipeError\<close>, ...); such an exception is not caught and leaves
  the hook as it was raised. The failures the hook recovers from (\<open>CalledProcessError\<close>,
  \<open>FileNotFoundError\<close>) never leave it.
\<close>

theorem surfaced_errors:
  assumes "result_of (initialize_with out rt self version build_data w) = Inl e"
  shows "\<not> caught e
         \<and> (e = RuntimeError remediation_message
            \<or> (\<exists>en. invocation rt self w = SpawnFailed en \<and> e = oserror_of en)
            \<or> (\<exists>c fs'. invocation rt self w = RunRaised c fs' \<and> e = OtherException c)
            \<or> (\<exists>s c. out s = Some c \<and> e = OtherException c))"
  using assms
  by (cases w; cases "spawn rt cython_argv (root self) (files w)")
     (auto simp: result_of_def hook_defs split: option.splits if_splits)

text \<open>The error of the run without \<open>cython\<close> and without the file is the fatal one.\<close>

theorem surfaced_errors_witness:
  "result_of (initialize_with working_stdout no_cython project ''1.0'' [] empty_tree)
     = Inl (RuntimeError remediation_message)
   \<and> \<not> caught (RuntimeError remediation_message)"
proof -
  have raised:
    "result_of (initialize_with working_stdout no_cython project ''1.0'' [] empty_tree)
       = Inl (RuntimeError remediation_message)"
    by (simp add: result_of_def working_stdout_def no_cython_def empty_tree_def hook_defs)
  from surfaced_errors [OF raised] raised show ?thesis by simp
qed

text \<open>
  C4, as stated, fails. A tool that overwrites the output file and then exits with status
  1, in a tree that has the file: the invocation fails, the file exists already, the hook
  returns without an error, and the content of the file is not what it was. A tool that
  removes the file before it fails makes the hook raise the fatal error although the file
  existed. And with the tool missing, the file present and standard output broken after
  the first line, the hook does not return: the error of the failed print leaves it.
\<close>

theorem failing_tool_changes_output:
  "tool_failure (invocation clobbering_cython project prebuilt_tree)
   \<and> output_exists project (files prebuilt_tree)
   \<and> result_of (initialize clobbering_cython project ''1.0'' [] prebuilt_tree) = Inr ()
   \<and> files prebuilt_tree ''/project/bt/core.c'' = Some ''generated earlier''
   \<and> files (world_after (initialize clobbering_cython project ''1.0'' [] prebuilt_tree))
        ''/project/bt/core.c'' = Some ''#error Do not use this file''
   \<and> tool_failure (invocation deleting_cython project prebuilt_tree)
   \<and> result_of (initialize deleting_cython project ''1.0'' [] prebuilt_tree)
       = Inl (RuntimeError remediation_message)
   \<and> tool_failure (invocation no_cython project prebuilt_tree)
   \<and> result_of (initialize_with broken_pipe no_cython project ''1.0'' [] prebuilt_tree)
       = Inl (OtherException ''BrokenPipeError'')"
  by (simp add: initialize_cases result_of_def world_after_def clobbering_cython_def
        deleting_cython_def no_cython_def broken_pipe_def hook_defs project_def
        prebuilt_tree_def cython_argv_def core_c_path_def os_path_join_def join_step_def
        output_exists_def)

text \<open>
  C4, amended. In a run in which the writes to standard output succeed: after a failed
  invocation the hook returns without an error exactly if the output file exists when it
  looks, after the attempt; when the output file exists already and the failed invocation
  has left it as it was, the hook returns without an error and the content of the file is
  unchanged; that is so whenever the tool is missing, and then no file at all is changed.
  In every run, with any standard output, the hook writes no file itself: the files after
  a call are those the subprocess left (those before the call if the subprocess was not
  reached), and the only operation of the hook on the file system is the test for the
  existence of the output file, made at most once.
\<close>

theorem hook_writes_no_file:
  "files (world_after (initialize_with out rt self version build_data w))
     = (if out ''Compiling bt/core.py with Cython...'' = None
        then files_left (invocation rt self w) (files w) else files w)
   \<and> (filter is_path_exists (operations_with out rt self version build_data w) = []
      \<or> filter is_path_exists (operations_with out rt self version build_data w)
          = [PathExists (core_c_path self)])
   \<and> filter is_path_exists (operations rt self version build_data w)
       = (if tool_failure (invocation rt self w) then [PathExists (core_c_path self)] else [])
   \<and> (tool_failure (invocation rt self w)
      \<longrightarrow> (result_of (initialize rt self version build_data w) = Inr ())
           = output_exists self (files_left (invocation rt self w) (files w)))
   \<and> (tool_failure (invocation rt self w) \<and> output_exists self (files w)
        \<and> files_left (invocation rt self w) (files w) (core_c_path self)
            = files w (core_c_path self)
      \<longrightarrow> result_of (initialize rt self version build_data w) = Inr ()
          \<and> files (world_after (initialize rt self version build_data w)) (core_c_path self)
              = files w (core_c_path self))
   \<and> (invocation rt self w = SpawnFailed ENOENT \<and> output_exists self (files w)
      \<longrightarrow> result_of (initialize rt self version build_data w) = Inr ()
          \<and> files (world_after (initialize rt self version build_data w)) = files w)"
proof -
  have general:
    "files (world_after (initialize_with out rt self version build_data w))
       = (if out ''Compiling bt/core.py with Cython...'' = None
          then files_left (invocation rt self w) (files w) else files w)
     \<and> (filter is_path_exists (operations_with out rt self version build_data w) = []
        \<or> filter is_path_exists (operations_with out rt self version build_data w)
            = [PathExists (core_c_path self)])"
    by (cases w; cases "spawn rt cython_argv (root self) (files w)")
       (auto simp: world_after_def operations_with_def hook_defs
             split: option.splits if_splits)
  have quiet:
    "filter is_path_exists (operations rt self version build_data w)
       = (if tool_failure (invocation rt self w) then [PathExists (core_c_path self)] else [])
     \<and> (tool_failure (invocation rt self w)
        \<longrightarrow> (result_of (initialize rt self version build_data w) = Inr ())
             = output_exists self (files_left (invocation rt self w) (files w)))
     \<and> (tool_failure (invocation rt self w) \<and> output_exists self (files w)
          \<and> files_left (invocation rt self w) (files w) (core_c_path self)
              = files w (core_c_path self)
        \<longrightarrow> result_of (initialize rt self version build_data w) = Inr ()
            \<and> files (world_after (initialize rt self version build_data w)) (core_c_path self)
                = files w (core_c_path self))
     \<and> (invocation rt self w = SpawnFailed ENOENT \<and> output_exists self (files w)
        \<longrightarrow> result_of (initialize rt self version build_data w) = Inr ()
            \<and> files (world_after (initialize rt self version build_data w)) = files w)"
    by (cases "invocation rt self w")
       (auto simp: result_of_def world_after_def operations_def output_exists_def
                   initialize_cases)
  from general quiet show ?thesis by blast
qed

text \<open>
  A file generated earlier, and \<open>cython\<close> either missing or failing with status 1 without
  touching it: the call returns and the file is as before.
\<close>

theorem hook_writes_no_file_witness:
  "tool_failure (invocation no_cython project prebuilt_tree)
   \<and> output_exists project (files prebuilt_tree)
   \<and> result_of (initialize no_cython project ''1.0'' [] prebuilt_tree) = Inr ()
   \<and> files (world_after (initialize no_cython project ''1.0'' [] prebuilt_tree))
        ''/project/bt/core.c'' = Some ''generated earlier''
   \<and> tool_failure (invocation failing_cython project prebuilt_tree)
   \<and> result_of (initialize failing_cython project ''1.0'' [] prebuilt_tree) = Inr ()
   \<and> files (world_after (initialize failing_cython project ''1.0'' [] prebuilt_tree))
        ''/project/bt/core.c'' = Some ''generated earlier''"
  using hook_writes_no_file [of working_stdout no_cython project "''1.0''" "[]" prebuilt_tree]
        hook_writes_no_file [of working_stdout failing_cython project "''1.0''" "[]" prebuilt_tree]
  by (simp add: invocation_def no_cython_def failing_cython_def project_def prebuilt_tree_def
        output_exists_def core_c_path_def os_path_join_def join_step_def)






text \<open>
  C8. The hook does not depend on its arguments \<open>version\<close> and \<open>build_data\<close>: two calls
  on the same build root, in the same world and with the same runtime, that differ only in
  these two arguments have the same result and leave the same world, that is the same
  files and the same operations, the subprocess call among them.
\<close>

theorem version_and_build_data_unused:
  "result_of (initialize rt self version build_data w)
     = result_of (initialize rt self version' build_data' w)
   \<and> world_after (initialize rt self version build_data w)
     = world_after (initialize rt self version' build_data' w)"
  by (simp add: result_of_def world_after_def initialize_cases split: proc_outcome.splits)

text \<open>
  C9. The path the fallback check examines names the file the compiler subprocess is told
  to write: for every build root and every working directory \<open>wd\<close> of the hook's process,
  \<open>os.path.join(self.root, "bt", "core.c")\<close> resolved in \<open>wd\<close> gives the same walk as
  the argument \<open>bt/core.c\<close> of the command resolved in the working directory of the
  child, which is what \<open>self.root\<close> names in \<open>wd\<close>. The same holds of the operations
  of any call: the path of its existence test and the output argument of its subprocess
  call, taken in that call's working directory, name one file. (For the empty root the
  joined path is \<open>bt/core.c\<close> itself, taken in \<open>wd\<close>.)
\<close>

theorem check_names_the_output_of_the_tool:
  "resolve wd (core_c_path self) = resolve (resolve wd (root self)) (cython_argv ! 3)
   \<and> (\<forall>p args cwd chk.
         PathExists p \<in> set (operations rt self version build_data w)
         \<and> SubprocessRun args cwd chk \<in> set (operations rt self version build_data w)
         \<longrightarrow> resolve wd p = resolve (resolve wd cwd) (args ! 3))"
proof -
  have walk: "resolve wd (core_c_path self) = resolve (resolve wd (root self)) (cython_argv ! 3)"
    using core_c_path_resolves [of wd self] by (simp add: cython_argv_def)
  have "resolve wd p = resolve (resolve wd cwd) (args ! 3)"
    if "PathExists p \<in> set (operations rt self version build_data w)"
      and "SubprocessRun args cwd chk \<in> set (operations rt self version build_data w)"
    for p args cwd chk
  proof -
    from that have "p = core_c_path self \<and> args = cython_argv \<and> cwd = root self"
      by (cases "invocation rt self w")
         (auto simp: world_after_def operations_def initialize_cases split: if_splits)
    with walk show ?thesis by simp
  qed
  with walk show ?thesis by blast
qed

text \<open>
  The project at \<open>/project\<close>, built from \<open>/home/dev\<close> without \<open>cython\<close>: the check
  looks at \<open>/project/bt/core.c\<close>, where a child started in \<open>/project\<close> would write.
\<close>

theorem check_names_the_output_of_the_tool_witness:
  "PathExists ''/project/bt/core.c'' \<in> set (operations no_cython project ''1.0'' [] empty_tree)
   \<and> SubprocessRun cython_argv ''/project'' True
        \<in> set (operations no_cython project ''1.0'' [] empty_tree)
   \<and> resolve [''home'', ''dev''] ''/project/bt/core.c'' = [''project'', ''bt'', ''core.c'']
   \<and> resolve (resolve [''home'', ''dev''] ''/project'') (cython_argv ! 3)
       = [''project'', ''bt'', ''core.c'']"
proof -
  have ops: "PathExists ''/project/bt/core.c''
               \<in> set (operations no_cython project ''1.0'' [] empty_tree)
             \<and> SubprocessRun cython_argv ''/project'' True
               \<in> set (operations no_cython project ''1.0'' [] empty_tree)"
    by (simp add: operations_def world_after_def initialize_cases invocation_def no_cython_def
          project_def empty_tree_def core_c_path_def os_path_join_def join_step_def)
  have here: "resolve [''home'', ''dev''] ''/project/bt/core.c'' = [''project'', ''bt'', ''core.c'']"
    by (simp add: resolve_def is_absolute_def path_components_def)
  from check_names_the_output_of_the_tool
         [of "[''home'', ''dev'']" project no_cython "''1.0''" "[]" empty_tree] ops
  have "resolve [''home'', ''dev''] ''/project/bt/core.c''
          = resolve (resolve [''home'', ''dev''] ''/project'') (cython_argv ! 3)"
    by blast
  with ops here show ?thesis by simp
qed

text \<open>
  C10. The hook never mutates the \<open>build_data\<close> mapping passed to it: whether the call
  returns, raises the fatal error or lets an exception pass, \<open>build_data\<close> after the
  call is \<open>build_data\<close> before it.
\<close>

theorem build_data_unchanged:
  "build_data_after (initialize rt self version build_data w) = build_data"
  by (simp add: build_data_after_def initialize_cases split: proc_outcome.splits)

end
